theory Spec2Isabelle
  imports Main "HOL-Library.Word"
begin

section \<open>The process state the shim works on\<close>

text \<open>
  The two translation units \<^verbatim>\<open>ultra_sampler_hook.cpp\<close> and
  \<^verbatim>\<open>ultra_sampler_indirect.cpp\<close> each define \<^verbatim>\<open>set_temporary_tmpdir\<close>.
  Both only talk to the C library: \<^verbatim>\<open>getenv\<close>, \<^verbatim>\<open>strlen\<close>, \<^verbatim>\<open>malloc\<close>,
  \<^verbatim>\<open>snprintf\<close>, \<^verbatim>\<open>mkdir\<close>, \<^verbatim>\<open>setenv\<close>, \<^verbatim>\<open>getpid\<close>, \<^verbatim>\<open>printf\<close>
  and the callback. The state they act on is the environment block and the directories
  of the file system. A C string is modelled by its bytes before the terminating NUL, and
  the pointer returned by \<^verbatim>\<open>getenv\<close> by the string it points to when it is read.
  The initializer is placed in the Mach-O section \<^verbatim>\<open>__DATA,__mod_init_func\<close>, so the
  target is 64-bit and \<^verbatim>\<open>size_t\<close> has 64 bits.
\<close>

type_synonym size_t = "64 word"

datatype errno = EEXIST | EACCES | ENOSPC | ENAMETOOLONG | ENOENT | ENOTDIR | EROFS | ENOMEM

record sys =
  environ :: "string \<rightharpoonup> string"
  dirs :: "string \<rightharpoonup> nat"

text \<open>
  A call of the callback either returns or leaves by a non-local exit (a C++ exception
  passing through the frame, \<^verbatim>\<open>longjmp\<close>), in which case the statements after the
  call are not executed and control continues in some caller.
\<close>

datatype exit = Returns | Unwinds

text \<open>Reads the C standard leaves undefined.\<close>

datatype fault = Read_Out_Of_Bounds | Read_Uninitialized | Null_String

text \<open>What the routine itself does to the outside, in order.\<close>

datatype event =
    Mkdir string nat "errno option"
  | Setenv string string bool
  | Printf string
  | Invoke

text \<open>
  The results of the library calls that the program cannot determine: whether the one
  \<^verbatim>\<open>malloc\<close> succeeds, whether \<^verbatim>\<open>mkdir\<close> fails for a reason of its own,
  whether each of the two \<^verbatim>\<open>setenv\<close> calls succeeds, and the process id.
\<close>

record outcomes =
  malloc_ok :: bool
  mkdir_fault :: "errno option"
  setenv_redirect_ok :: bool
  setenv_restore_ok :: bool
  getpid :: int

record result =
  how :: exit
  trace :: "event list"
  final :: sys

section \<open>The library calls\<close>

definition getenv :: "sys \<Rightarrow> string \<Rightarrow> string option" where
  "getenv s name = environ s name"

definition strlen :: "string \<Rightarrow> size_t" where
  "strlen str = of_nat (length str)"

text \<open>
  \<^verbatim>\<open>str[i]\<close> with \<^verbatim>\<open>i\<close> of type \<^verbatim>\<open>size_t\<close>: the bytes of the string, then its
  terminator; any other index is outside the object.
\<close>

definition char_at :: "string \<Rightarrow> size_t \<Rightarrow> char option" where
  "char_at str i =
     (if unat i < length str then Some (str ! unat i)
      else if unat i = length str then Some (CHR 0x00)
      else None)"

datatype arg = Arg_Str string | Arg_Int int

definition digit :: "nat \<Rightarrow> char" where
  "digit d = char_of (48 + d)"

fun dec_nat :: "nat \<Rightarrow> string" where
  "dec_nat n = (if n < 10 then [digit n] else dec_nat (n div 10) @ [digit (n mod 10)])"

declare dec_nat.simps [simp del]

definition dec_int :: "int \<Rightarrow> string" where
  "dec_int i = (if i < 0 then CHR ''-'' # dec_nat (nat (- i)) else dec_nat (nat i))"

text \<open>The conversions the format strings of the two files use: \<^verbatim>\<open>%s\<close> and \<^verbatim>\<open>%d\<close>.\<close>

fun sformat :: "string \<Rightarrow> arg list \<Rightarrow> string" where
  "sformat [] args = []"
| "sformat [c] args = [c]"
| "sformat (c # d # fmt) args =
     (if c = CHR ''%'' \<and> d = CHR ''s'' then
        (case args of Arg_Str a # rest \<Rightarrow> a @ sformat fmt rest | _ \<Rightarrow> sformat fmt (tl args))
      else if c = CHR ''%'' \<and> d = CHR ''d'' then
        (case args of Arg_Int i # rest \<Rightarrow> dec_int i @ sformat fmt rest | _ \<Rightarrow> sformat fmt (tl args))
      else c # sformat (d # fmt) args)"

text \<open>
  \<^verbatim>\<open>snprintf(buf, n, fmt, ...)\<close> stores at most \<^verbatim>\<open>n - 1\<close> bytes of the formatted
  text and a terminator; with \<^verbatim>\<open>n = 0\<close> it stores nothing and the buffer stays as
  \<^verbatim>\<open>malloc\<close> left it.
\<close>

definition snprintf :: "size_t \<Rightarrow> string \<Rightarrow> arg list \<Rightarrow> string option" where
  "snprintf n fmt args = (if n = 0 then None else Some (take (unat n - 1) (sformat fmt args)))"

text \<open>
  \<^verbatim>\<open>mkdir(path, mode)\<close>: \<^verbatim>\<open>None\<close> is the return value 0, \<^verbatim>\<open>Some e\<close> is
  \<^verbatim>\<open>-1\<close> with \<^verbatim>\<open>errno = e\<close>. A failure of the call itself comes first;
  otherwise the call reports \<^verbatim>\<open>EEXIST\<close> when the path is there and creates the
  directory when it is not. A failure leaves the file system as it was.
\<close>

definition mkdir :: "errno option \<Rightarrow> string \<Rightarrow> nat \<Rightarrow> sys \<Rightarrow> errno option \<times> sys" where
  "mkdir flt path mode s =
     (case flt of
        Some e \<Rightarrow> (Some e, s)
      | None \<Rightarrow>
          (case dirs s path of
             Some m \<Rightarrow> (Some EEXIST, s)
           | None \<Rightarrow> (None, s\<lparr>dirs := (dirs s)(path \<mapsto> mode)\<rparr>)))"

text \<open>\<^verbatim>\<open>setenv(name, value, 1)\<close>: \<^verbatim>\<open>True\<close> is the return value 0.\<close>

definition setenv :: "bool \<Rightarrow> string \<Rightarrow> string \<Rightarrow> sys \<Rightarrow> bool \<times> sys" where
  "setenv ok name val s =
     (if ok then (True, s\<lparr>environ := (environ s)(name \<mapsto> val)\<rparr>) else (False, s))"

section \<open>\<^verbatim>\<open>set_temporary_tmpdir\<close> of \<^verbatim>\<open>ultra_sampler_hook.cpp\<close>\<close>

text \<open>
  Lines 15 to 55 of the file, statement by statement. Each \<^verbatim>\<open>return\<close> of the source
  is an \<open>Inr\<close> with exit \<open>Returns\<close>; the two reads that can be undefined are
  \<open>Inl\<close>. \<^verbatim>\<open>0700\<close> is 448. \<^verbatim>\<open>free\<close> has no effect on the state modelled
  here. The status of the last \<^verbatim>\<open>setenv\<close> is recorded in the trace but, as in the
  source, not looked at.
\<close>

definition set_temporary_tmpdir_hook ::
  "outcomes \<Rightarrow> string \<Rightarrow> (sys \<Rightarrow> exit \<times> sys) \<Rightarrow> sys \<Rightarrow> fault + result" where
  "set_temporary_tmpdir_hook oc sub_dir_name func s =
    (case getenv s ''TMPDIR'' of
       None \<Rightarrow> Inr \<lparr>how = Returns, trace = [], final = s\<rparr>
     | Some original_tmpdir \<Rightarrow>
        (let original_tmpdir_len = strlen original_tmpdir in
         case char_at original_tmpdir (original_tmpdir_len - 1) of
           None \<Rightarrow> Inl Read_Out_Of_Bounds
         | Some last_char \<Rightarrow>
            (let has_trailing_slash = (last_char = CHR ''/'');
                 new_tmpdir_len = original_tmpdir_len + strlen sub_dir_name + 1
                                    + (if has_trailing_slash then 1 else 0)
             in
             if \<not> malloc_ok oc then Inr \<lparr>how = Returns, trace = [], final = s\<rparr>
             else
              (case snprintf new_tmpdir_len
                      (if has_trailing_slash then ''%s%s/'' else ''%s/%s/'')
                      [Arg_Str original_tmpdir, Arg_Str sub_dir_name] of
                 None \<Rightarrow> Inl Read_Uninitialized
               | Some new_tmpdir \<Rightarrow>
                  (case mkdir (mkdir_fault oc) new_tmpdir 448 s of (err, s1) \<Rightarrow>
                   let t1 = [Mkdir new_tmpdir 448 err] in
                   if err \<noteq> None \<and> err \<noteq> Some EEXIST then
                     Inr \<lparr>how = Returns, trace = t1, final = s1\<rparr>
                   else
                    (case setenv (setenv_redirect_ok oc) ''TMPDIR'' new_tmpdir s1 of (ok, s2) \<Rightarrow>
                     let t2 = t1 @ [Setenv ''TMPDIR'' new_tmpdir ok] in
                     if \<not> ok then Inr \<lparr>how = Returns, trace = t2, final = s2\<rparr>
                     else
                      (case func s2 of
                         (Unwinds, s3) \<Rightarrow>
                           Inr \<lparr>how = Unwinds, trace = t2 @ [Invoke], final = s3\<rparr>
                       | (Returns, s3) \<Rightarrow>
                          (case setenv (setenv_restore_ok oc) ''TMPDIR'' original_tmpdir s3 of
                             (ok', s4) \<Rightarrow>
                               Inr \<lparr>how = Returns,
                                    trace = t2 @ [Invoke, Setenv ''TMPDIR'' original_tmpdir ok'],
                                    final = s4\<rparr>))))))))"

section \<open>\<^verbatim>\<open>set_temporary_tmpdir\<close> of \<^verbatim>\<open>ultra_sampler_indirect.cpp\<close>\<close>

text \<open>
  Lines 12 to 55 of the file, written out again from that file: the same statements, with
  \<^verbatim>\<open>getpid\<close> and a \<^verbatim>\<open>printf\<close> of the process id and of
  \<^verbatim>\<open>getenv("TMPDIR")\<close> before the callback.
\<close>

definition set_temporary_tmpdir_indirect ::
  "outcomes \<Rightarrow> string \<Rightarrow> (sys \<Rightarrow> exit \<times> sys) \<Rightarrow> sys \<Rightarrow> fault + result" where
  "set_temporary_tmpdir_indirect oc sub_dir_name func s =
    (case getenv s ''TMPDIR'' of
       None \<Rightarrow> Inr \<lparr>how = Returns, trace = [], final = s\<rparr>
     | Some original_tmpdir \<Rightarrow>
        (let original_tmpdir_len = strlen original_tmpdir in
         case char_at original_tmpdir (original_tmpdir_len - 1) of
           None \<Rightarrow> Inl Read_Out_Of_Bounds
         | Some last_char \<Rightarrow>
            (let has_trailing_slash = (last_char = CHR ''/'');
                 new_tmpdir_len = original_tmpdir_len + strlen sub_dir_name + 1
                                    + (if has_trailing_slash then 1 else 0)
             in
             if \<not> malloc_ok oc then Inr \<lparr>how = Returns, trace = [], final = s\<rparr>
             else
              (case snprintf new_tmpdir_len
                      (if has_trailing_slash then ''%s%s/'' else ''%s/%s/'')
                      [Arg_Str original_tmpdir, Arg_Str sub_dir_name] of
                 None \<Rightarrow> Inl Read_Uninitialized
               | Some new_tmpdir \<Rightarrow>
                  (case mkdir (mkdir_fault oc) new_tmpdir 448 s of (err, s1) \<Rightarrow>
                   let t1 = [Mkdir new_tmpdir 448 err] in
                   if err \<noteq> None \<and> err \<noteq> Some EEXIST then
                     Inr \<lparr>how = Returns, trace = t1, final = s1\<rparr>
                   else
                    (case setenv (setenv_redirect_ok oc) ''TMPDIR'' new_tmpdir s1 of (ok, s2) \<Rightarrow>
                     let t2 = t1 @ [Setenv ''TMPDIR'' new_tmpdir ok] in
                     if \<not> ok then Inr \<lparr>how = Returns, trace = t2, final = s2\<rparr>
                     else
                      (let pid = getpid oc in
                       case getenv s2 ''TMPDIR'' of
                         None \<Rightarrow> Inl Null_String
                       | Some shown \<Rightarrow>
                          (let t3 = t2 @ [Printf (sformat
                                 (''Current Process pid: %d tmpdir: %s'' @ [CHR 0x0A])
                                 [Arg_Int pid, Arg_Str shown])] in
                           case func s2 of
                             (Unwinds, s3) \<Rightarrow>
                               Inr \<lparr>how = Unwinds, trace = t3 @ [Invoke], final = s3\<rparr>
                           | (Returns, s3) \<Rightarrow>
                              (case setenv (setenv_restore_ok oc) ''TMPDIR'' original_tmpdir s3 of
                                 (ok', s4) \<Rightarrow>
                                   Inr \<lparr>how = Returns,
                                        trace = t3 @ [Invoke, Setenv ''TMPDIR'' original_tmpdir ok'],
                                        final = s4\<rparr>)))))))))"

text \<open>The load-time entry point of both files.\<close>

definition ultra_sampler_boot ::
  "outcomes \<Rightarrow> (sys \<Rightarrow> exit \<times> sys) \<Rightarrow> sys \<Rightarrow> fault + result" where
  "ultra_sampler_boot oc ultra_sampler_start s =
     set_temporary_tmpdir_hook oc ''.ultra'' ultra_sampler_start s"

section \<open>Comparing the two files\<close>

text \<open>The routine of one file prints a diagnostic line, the other does not.\<close>

fun kept :: "event \<Rightarrow> bool" where
  "kept (Printf text) = False"
| "kept e = True"

definition without_printf :: "result \<Rightarrow> result" where
  "without_printf r = r\<lparr>trace := filter kept (trace r)\<rparr>"

section \<open>Concrete processes\<close>

text \<open>A process in which every library call succeeds.\<close>

definition all_succeed :: outcomes where
  "all_succeed = \<lparr>malloc_ok = True, mkdir_fault = None, setenv_redirect_ok = True,
                   setenv_restore_ok = True, getpid = 4242\<rparr>"

definition malloc_fails :: outcomes where
  "malloc_fails = all_succeed\<lparr>malloc_ok := False\<rparr>"

definition mkdir_denied :: outcomes where
  "mkdir_denied = all_succeed\<lparr>mkdir_fault := Some EACCES\<rparr>"

definition restore_fails :: outcomes where
  "restore_fails = all_succeed\<lparr>setenv_restore_ok := False\<rparr>"

text \<open>An environment holding only \<^verbatim>\<open>TMPDIR\<close>, an empty one, and no directories yet.\<close>

definition tmpdir_only :: "string \<Rightarrow> sys" where
  "tmpdir_only v = \<lparr>environ = [''TMPDIR'' \<mapsto> v], dirs = Map.empty\<rparr>"

definition no_tmpdir :: sys where
  "no_tmpdir = \<lparr>environ = Map.empty, dirs = Map.empty\<rparr>"

text \<open>
  Callbacks: one that returns at once, one that leaves by a non-local exit, and one that
  copies what it reads from \<^verbatim>\<open>TMPDIR\<close> into the variable \<^verbatim>\<open>SEEN\<close>.
\<close>

definition returning_callback :: "sys \<Rightarrow> exit \<times> sys" where
  "returning_callback t = (Returns, t)"

definition unwinding_callback :: "sys \<Rightarrow> exit \<times> sys" where
  "unwinding_callback t = (Unwinds, t)"

definition recording_callback :: "sys \<Rightarrow> exit \<times> sys" where
  "recording_callback t = (Returns, t\<lparr>environ := (environ t)(''SEEN'' := environ t ''TMPDIR'')\<rparr>)"

text \<open>The runs of calls that start from \<^verbatim>\<open>TMPDIR=/tmp/\<close> with the name \<^verbatim>\<open>.ultra\<close>.\<close>

definition restored :: sys where
  "restored = \<lparr>environ = [''TMPDIR'' \<mapsto> ''/tmp/''], dirs = [''/tmp/.ultra/'' \<mapsto> 448]\<rparr>"

definition first_run :: result where
  "first_run = \<lparr>how = Returns,
       trace = [Mkdir ''/tmp/.ultra/'' 448 None, Setenv ''TMPDIR'' ''/tmp/.ultra/'' True, Invoke,
                Setenv ''TMPDIR'' ''/tmp/'' True],
       final = restored\<rparr>"

definition denied_run :: result where
  "denied_run = \<lparr>how = Returns, trace = [Mkdir ''/tmp/.ultra/'' 448 (Some EACCES)],
       final = tmpdir_only ''/tmp/''\<rparr>"

section \<open>Sizes, indices and the formatted path\<close>

lemma unat_strlen: "length str < 2 ^ 64 \<Longrightarrow> unat (strlen str) = length str"
  by (simp add: strlen_def unat_of_nat)

lemma unat_strlen_pred:
  assumes "str \<noteq> []" and "length str < 2 ^ 64"
  shows "unat (strlen str - 1) = length str - 1"
proof -
  have "strlen str - 1 = (of_nat (length str - 1) :: size_t)"
    using assms by (cases str) (simp_all add: strlen_def)
  moreover have "length str - 1 < 2 ^ 64" using assms by simp
  ultimately show ?thesis by (simp add: unat_of_nat)
qed

lemma char_at_last:
  assumes "str \<noteq> []" and "length str < 2 ^ 64"
  shows "char_at str (strlen str - 1) = Some (last str)"
  using assms by (simp add: char_at_def unat_strlen_pred last_conv_nth)

lemma unat_minus_1_size_t: "unat (- 1 :: size_t) = 2 ^ 64 - 1"
  by (simp add: unsigned_minus_1_eq_mask mask_eq_exp_minus_1)

lemma char_at_empty: "char_at [] (strlen [] - 1) = None"
  by (simp add: char_at_def strlen_def unat_minus_1_size_t)

lemma unat_strlen_pred_less:
  assumes "str \<noteq> []"
  shows "unat (strlen str - 1) < length str"
proof (cases "strlen str = 0")
  case True
  have "unat (strlen str) = length str mod 2 ^ 64"
    by (simp add: strlen_def unat_of_nat)
  with True have "length str mod 2 ^ 64 = 0" by simp
  moreover have "0 < length str" using assms by simp
  ultimately have "2 ^ 64 \<le> length str"
    by (metis mod_less not_le_imp_less less_not_refl)
  with True show ?thesis by (simp add: unat_minus_1_size_t)
next
  case False
  then have "unat (strlen str - 1) = unat (strlen str) - 1"
    by (rule unat_minus_one)
  moreover have "unat (strlen str) \<le> length str"
    by (simp add: strlen_def unat_of_nat)
  moreover have "0 < unat (strlen str)"
    using False by (simp add: unat_gt_0)
  ultimately show ?thesis by simp
qed

lemma char_at_nonempty:
  assumes "str \<noteq> []"
  shows "\<exists>c. char_at str (strlen str - 1) = Some c"
  using unat_strlen_pred_less [OF assms] by (simp add: char_at_def)

lemma sformat_with_slash: "sformat ''%s%s/'' [Arg_Str a, Arg_Str b] = a @ b @ ''/''"
  by simp

lemma sformat_without_slash: "sformat ''%s/%s/'' [Arg_Str a, Arg_Str b] = a @ ''/'' @ b @ ''/''"
  by simp

lemma snprintf_with_slash:
  assumes "length a + length b + 2 < 2 ^ 64"
  shows "snprintf (strlen a + strlen b + 1 + 1) ''%s%s/'' [Arg_Str a, Arg_Str b] = Some (a @ b @ ''/'')"
proof -
  have eq: "strlen a + strlen b + 1 + 1 = (of_nat (length a + length b + 2) :: size_t)"
    by (simp add: strlen_def)
  have un: "unat (of_nat (length a + length b + 2) :: size_t) = length a + length b + 2"
    by (rule of_nat_inverse [OF refl]) (use assms in simp)
  have nz: "(of_nat (length a + length b + 2) :: size_t) \<noteq> 0"
    using un by (metis unat_0 add_is_0 zero_neq_numeral)
  show ?thesis
    unfolding snprintf_def sformat_with_slash eq using un nz by simp
qed

lemma snprintf_without_slash:
  assumes "length a + length b + 1 < 2 ^ 64"
  shows "snprintf (strlen a + strlen b + 1 + 0) ''%s/%s/'' [Arg_Str a, Arg_Str b]
           = Some (take (length a + length b) (a @ ''/'' @ b @ ''/''))"
proof -
  have eq: "strlen a + strlen b + 1 + 0 = (of_nat (length a + length b + 1) :: size_t)"
    by (simp add: strlen_def)
  have un: "unat (of_nat (length a + length b + 1) :: size_t) = length a + length b + 1"
    by (rule of_nat_inverse [OF refl]) (use assms in simp)
  have nz: "(of_nat (length a + length b + 1) :: size_t) \<noteq> 0"
    using un by (metis unat_0 add_is_0 zero_neq_one)
  show ?thesis
    unfolding snprintf_def sformat_without_slash eq using un nz by simp
qed

lemma truncated_text:
  "take (length a + length b) (a @ ''/'' @ b @ ''/'') = butlast (a @ ''/'' @ b)"
proof -
  have "a @ ''/'' @ b @ ''/'' = (a @ ''/'' @ b) @ ''/''" by simp
  moreover have "length a + length b = length (a @ ''/'' @ b) - 1" by simp
  ultimately show ?thesis
    by (metis butlast_conv_take diff_le_self order_refl take_all take_append diff_is_0_eq' take_0 append_Nil2)
qed




section \<open>The routine after the path is built\<close>

lemma hook_flat:
  assumes env: "environ s ''TMPDIR'' = Some orig"
      and rd: "char_at orig (strlen orig - 1) = Some c"
      and al: "malloc_ok oc"
      and path: "snprintf (strlen orig + strlen sub_dir_name + 1 + (if c = CHR ''/'' then 1 else 0))
                   (if c = CHR ''/'' then ''%s%s/'' else ''%s/%s/'')
                   [Arg_Str orig, Arg_Str sub_dir_name] = Some p"
      and mk: "mkdir (mkdir_fault oc) p 448 s = (err, s1)"
      and cb: "func (s1\<lparr>environ := (environ s1)(''TMPDIR'' \<mapsto> p)\<rparr>) = (e, s3)"
  shows "set_temporary_tmpdir_hook oc sub_dir_name func s =
            (if err \<noteq> None \<and> err \<noteq> Some EEXIST then
               Inr \<lparr>how = Returns, trace = [Mkdir p 448 err], final = s1\<rparr>
             else if \<not> setenv_redirect_ok oc then
               Inr \<lparr>how = Returns, trace = [Mkdir p 448 err, Setenv ''TMPDIR'' p False], final = s1\<rparr>
             else if e = Unwinds then
               Inr \<lparr>how = Unwinds, trace = [Mkdir p 448 err, Setenv ''TMPDIR'' p True, Invoke], final = s3\<rparr>
             else
               Inr \<lparr>how = Returns,
                    trace = [Mkdir p 448 err, Setenv ''TMPDIR'' p True, Invoke,
                             Setenv ''TMPDIR'' orig (setenv_restore_ok oc)],
                    final = snd (setenv (setenv_restore_ok oc) ''TMPDIR'' orig s3)\<rparr>)"
  using env rd al path mk cb
  by (cases e) (simp_all add: set_temporary_tmpdir_hook_def getenv_def setenv_def Let_def)

lemma hook_invoked_cases:
  assumes run: "set_temporary_tmpdir_hook oc sub_dir_name func s = Inr r"
      and inv: "Invoke \<in> set (trace r)"
  obtains orig c p err s1 e s3 where
    "environ s ''TMPDIR'' = Some orig"
    "char_at orig (strlen orig - 1) = Some c"
    "malloc_ok oc"
    "snprintf (strlen orig + strlen sub_dir_name + 1 + (if c = CHR ''/'' then 1 else 0))
        (if c = CHR ''/'' then ''%s%s/'' else ''%s/%s/'')
        [Arg_Str orig, Arg_Str sub_dir_name] = Some p"
    "mkdir (mkdir_fault oc) p 448 s = (err, s1)"
    "err = None \<or> err = Some EEXIST"
    "setenv_redirect_ok oc"
    "func (s1\<lparr>environ := (environ s1)(''TMPDIR'' \<mapsto> p)\<rparr>) = (e, s3)"
    "how r = e"
    "e = Unwinds \<Longrightarrow> trace r = [Mkdir p 448 err, Setenv ''TMPDIR'' p True, Invoke] \<and> final r = s3"
    "e = Returns \<Longrightarrow> trace r = [Mkdir p 448 err, Setenv ''TMPDIR'' p True, Invoke,
                                  Setenv ''TMPDIR'' orig (setenv_restore_ok oc)]
                     \<and> final r = snd (setenv (setenv_restore_ok oc) ''TMPDIR'' orig s3)"
proof (cases "environ s ''TMPDIR''")
  case None
  with run inv show ?thesis
    by (auto simp: set_temporary_tmpdir_hook_def getenv_def)
next
  case (Some orig)
  note env = this
  show ?thesis
  proof (cases "char_at orig (strlen orig - 1)")
    case None
    with env run show ?thesis
      by (simp add: set_temporary_tmpdir_hook_def getenv_def)
  next
    case (Some c)
    note rd = this
    define n where "n = strlen orig + strlen sub_dir_name + 1 + (if c = CHR ''/'' then 1 else 0)"
    define fmt where "fmt = (if c = CHR ''/'' then ''%s%s/'' else ''%s/%s/'')"
    show ?thesis
    proof (cases "malloc_ok oc")
      case False
      with env rd run inv show ?thesis
        by (auto simp: set_temporary_tmpdir_hook_def getenv_def Let_def)
    next
      case True
      note al = this
      show ?thesis
      proof (cases "snprintf n fmt [Arg_Str orig, Arg_Str sub_dir_name]")
        case None
        with env rd al run show ?thesis
          unfolding n_def fmt_def
          by (simp add: set_temporary_tmpdir_hook_def getenv_def Let_def)
      next
        case (Some p)
        note path = this [unfolded n_def fmt_def]
        obtain err s1 where mk: "mkdir (mkdir_fault oc) p 448 s = (err, s1)"
          by (cases "mkdir (mkdir_fault oc) p 448 s") blast
        obtain e s3 where cb: "func (s1\<lparr>environ := (environ s1)(''TMPDIR'' \<mapsto> p)\<rparr>) = (e, s3)"
          by (cases "func (s1\<lparr>environ := (environ s1)(''TMPDIR'' \<mapsto> p)\<rparr>)") blast
        note unf = hook_flat [where func = func, OF env rd al path mk cb]
        have ok: "err = None \<or> err = Some EEXIST"
          using run inv unfolding unf by (auto split: if_splits)
        have st: "setenv_redirect_ok oc"
          using run inv ok unfolding unf by (auto split: if_splits)
        have r: "r = (if e = Unwinds then
               \<lparr>how = Unwinds, trace = [Mkdir p 448 err, Setenv ''TMPDIR'' p True, Invoke], final = s3\<rparr>
             else
               \<lparr>how = Returns,
                    trace = [Mkdir p 448 err, Setenv ''TMPDIR'' p True, Invoke,
                             Setenv ''TMPDIR'' orig (setenv_restore_ok oc)],
                    final = snd (setenv (setenv_restore_ok oc) ''TMPDIR'' orig s3)\<rparr>)"
          using run ok st unfolding unf by (auto split: if_splits)
        show ?thesis
        proof (rule that [OF env rd al path mk ok st cb])
          show "how r = e" using r by (cases e) simp_all
          show "e = Unwinds \<Longrightarrow> trace r = [Mkdir p 448 err, Setenv ''TMPDIR'' p True, Invoke] \<and> final r = s3"
            using r by simp
          show "e = Returns \<Longrightarrow> trace r = [Mkdir p 448 err, Setenv ''TMPDIR'' p True, Invoke,
                                  Setenv ''TMPDIR'' orig (setenv_restore_ok oc)]
                     \<and> final r = snd (setenv (setenv_restore_ok oc) ''TMPDIR'' orig s3)"
            using r by simp
        qed
      qed
    qed
  qed
qed

lemma redirect_with_trailing_slash:
  assumes env: "environ s ''TMPDIR'' = Some orig"
      and ne: "orig \<noteq> []" and sl: "last orig = CHR ''/''"
      and len: "length orig + length sub_dir_name + 2 < 2 ^ 64"
      and al: "malloc_ok oc"
  shows "\<exists>r err. set_temporary_tmpdir_hook oc sub_dir_name func s = Inr r
           \<and> hd (trace r) = Mkdir (orig @ sub_dir_name @ ''/'') 448 err"
proof -
  let ?p = "orig @ sub_dir_name @ ''/''"
  have rd: "char_at orig (strlen orig - 1) = Some (CHR ''/'')"
    using char_at_last [OF ne] len sl by simp
  have path: "snprintf (strlen orig + strlen sub_dir_name + 1 + (if CHR ''/'' = CHR ''/'' then 1 else 0))
                (if CHR ''/'' = CHR ''/'' then ''%s%s/'' else ''%s/%s/'')
                [Arg_Str orig, Arg_Str sub_dir_name] = Some ?p"
    using snprintf_with_slash [OF len] by simp
  obtain err s1 where mk: "mkdir (mkdir_fault oc) ?p 448 s = (err, s1)"
    by (cases "mkdir (mkdir_fault oc) ?p 448 s") blast
  obtain e s3 where cb: "func (s1\<lparr>environ := (environ s1)(''TMPDIR'' \<mapsto> ?p)\<rparr>) = (e, s3)"
    by (cases "func (s1\<lparr>environ := (environ s1)(''TMPDIR'' \<mapsto> ?p)\<rparr>)") blast
  show ?thesis
    unfolding hook_flat [where func = func, OF env rd al path mk cb] by simp
qed

lemma redirect_without_trailing_slash:
  assumes env: "environ s ''TMPDIR'' = Some orig"
      and ne: "orig \<noteq> []" and sl: "last orig \<noteq> CHR ''/''"
      and len: "length orig + length sub_dir_name + 1 < 2 ^ 64"
      and al: "malloc_ok oc"
  shows "\<exists>r err. set_temporary_tmpdir_hook oc sub_dir_name func s = Inr r
           \<and> hd (trace r) = Mkdir (butlast (orig @ ''/'' @ sub_dir_name)) 448 err"
proof -
  let ?p = "butlast (orig @ ''/'' @ sub_dir_name)"
  have rd: "char_at orig (strlen orig - 1) = Some (last orig)"
    using char_at_last [OF ne] len by simp
  have path: "snprintf (strlen orig + strlen sub_dir_name + 1 + (if last orig = CHR ''/'' then 1 else 0))
                (if last orig = CHR ''/'' then ''%s%s/'' else ''%s/%s/'')
                [Arg_Str orig, Arg_Str sub_dir_name] = Some ?p"
    using snprintf_without_slash [OF len] sl by (simp only: truncated_text if_False)
  obtain err s1 where mk: "mkdir (mkdir_fault oc) ?p 448 s = (err, s1)"
    by (cases "mkdir (mkdir_fault oc) ?p 448 s") blast
  obtain e s3 where cb: "func (s1\<lparr>environ := (environ s1)(''TMPDIR'' \<mapsto> ?p)\<rparr>) = (e, s3)"
    by (cases "func (s1\<lparr>environ := (environ s1)(''TMPDIR'' \<mapsto> ?p)\<rparr>)") blast
  show ?thesis
    unfolding hook_flat [where func = func, OF env rd al path mk cb] by simp
qed

lemma successful_call_is_reached:
  assumes env: "environ s ''TMPDIR'' = Some orig" and ne: "orig \<noteq> []"
      and len: "length orig + length sub_dir_name + 2 < 2 ^ 64"
      and al: "malloc_ok oc"
      and mkok: "mkdir_fault oc = None \<or> mkdir_fault oc = Some EEXIST"
      and st: "setenv_redirect_ok oc"
      and ret: "\<forall>t. fst (func t) = Returns"
  shows "\<exists>r. set_temporary_tmpdir_hook oc sub_dir_name func s = Inr r
           \<and> Invoke \<in> set (trace r) \<and> how r = Returns"
proof -
  have rd: "char_at orig (strlen orig - 1) = Some (last orig)"
    using char_at_last [OF ne] len by simp
  obtain p where path:
    "snprintf (strlen orig + strlen sub_dir_name + 1 + (if last orig = CHR ''/'' then 1 else 0))
        (if last orig = CHR ''/'' then ''%s%s/'' else ''%s/%s/'')
        [Arg_Str orig, Arg_Str sub_dir_name] = Some p"
  proof (cases "last orig = CHR ''/''")
    case True
    with snprintf_with_slash [OF len] that show ?thesis by simp
  next
    case False
    have "length orig + length sub_dir_name + 1 < 2 ^ 64" using len by simp
    from snprintf_without_slash [OF this] False that show ?thesis by simp
  qed
  obtain err s1 where mk: "mkdir (mkdir_fault oc) p 448 s = (err, s1)"
    by (cases "mkdir (mkdir_fault oc) p 448 s") blast
  have ok: "err = None \<or> err = Some EEXIST"
    using mk mkok by (auto simp: mkdir_def split: option.splits)
  obtain e s3 where cb: "func (s1\<lparr>environ := (environ s1)(''TMPDIR'' \<mapsto> p)\<rparr>) = (e, s3)"
    by (cases "func (s1\<lparr>environ := (environ s1)(''TMPDIR'' \<mapsto> p)\<rparr>)") blast
  have e: "e = Returns"
    using ret [rule_format, of "s1\<lparr>environ := (environ s1)(''TMPDIR'' \<mapsto> p)\<rparr>"] cb by simp
  show ?thesis
    unfolding hook_flat [where func = func, OF env rd al path mk cb]
    using ok st e by auto
qed

lemma empty_value_faults:
  assumes "environ s ''TMPDIR'' = Some []"
  shows "set_temporary_tmpdir_hook oc sub_dir_name func s = Inl Read_Out_Of_Bounds"
    and "set_temporary_tmpdir_indirect oc sub_dir_name func s = Inl Read_Out_Of_Bounds"
  using assms
  by (simp_all add: set_temporary_tmpdir_hook_def set_temporary_tmpdir_indirect_def getenv_def
      char_at_empty)

lemma returned_call_restores:
  assumes "set_temporary_tmpdir_hook oc sub_dir_name func s = Inr r"
      and "Invoke \<in> set (trace r)" and "how r = Returns" and "setenv_restore_ok oc"
  shows "environ (final r) ''TMPDIR'' = environ s ''TMPDIR''"
proof (rule hook_invoked_cases [OF assms(1,2)])
  fix orig c p err s1 e s3
  assume env: "environ s ''TMPDIR'' = Some orig"
    and e: "how r = e"
    and n: "e = Returns \<Longrightarrow>
              trace r = [Mkdir p 448 err, Setenv ''TMPDIR'' p True, Invoke,
                         Setenv ''TMPDIR'' orig (setenv_restore_ok oc)]
              \<and> final r = snd (setenv (setenv_restore_ok oc) ''TMPDIR'' orig s3)"
  from e assms(3) have "e = Returns" by simp
  from n [OF this] assms(4) env show ?thesis by (simp add: setenv_def)
qed


section \<open>Runs of concrete processes\<close>

lemmas hook_eval_defs = set_temporary_tmpdir_hook_def getenv_def strlen_def char_at_def
  snprintf_def mkdir_def setenv_def Let_def

lemma run_first: "set_temporary_tmpdir_hook all_succeed ''.ultra'' returning_callback (tmpdir_only ''/tmp/'') = Inr first_run"
  by (simp add: hook_eval_defs all_succeed_def returning_callback_def tmpdir_only_def first_run_def restored_def)

lemma run_denied: "set_temporary_tmpdir_hook mkdir_denied ''.ultra'' returning_callback (tmpdir_only ''/tmp/'') = Inr denied_run"
  by (simp add: hook_eval_defs mkdir_denied_def all_succeed_def returning_callback_def tmpdir_only_def denied_run_def)

section \<open>The redirect path\<close>

text \<open>
  C1: for a value of \<^verbatim>\<open>TMPDIR\<close> that does not end in a separator, the path written
  into \<^verbatim>\<open>TMPDIR\<close> is to be the value, a separator, the name and a separator. The
  buffer is sized \<^verbatim>\<open>original_tmpdir_len + strlen(sub_dir_name) + 1\<close> in that case, two
  bytes short of the formatted text with its terminator, and \<^verbatim>\<open>snprintf\<close> cuts the
  text to fit. The load-time call with \<^verbatim>\<open>TMPDIR=/tmp\<close> creates the directory
  \<^verbatim>\<open>/tmp/.ultr\<close> and writes \<^verbatim>\<open>/tmp/.ultr\<close> into the variable, not
  \<^verbatim>\<open>/tmp/.ultra/\<close>. (For a value ending in a separator the buffer fits exactly:
  \<open>redirect_with_trailing_slash\<close>; the general form of the cut is
  \<open>redirect_without_trailing_slash\<close>.)
\<close>

theorem boot_path_truncated:
  "ultra_sampler_boot all_succeed returning_callback (tmpdir_only ''/tmp'')
     = Inr \<lparr>how = Returns,
            trace = [Mkdir ''/tmp/.ultr'' 448 None, Setenv ''TMPDIR'' ''/tmp/.ultr'' True, Invoke,
                     Setenv ''TMPDIR'' ''/tmp'' True],
            final = \<lparr>environ = [''TMPDIR'' \<mapsto> ''/tmp''], dirs = [''/tmp/.ultr'' \<mapsto> 448]\<rparr>\<rparr>"
  by (simp add: ultra_sampler_boot_def hook_eval_defs all_succeed_def returning_callback_def
      tmpdir_only_def)

text \<open>
  C2: while the callback runs, \<^verbatim>\<open>TMPDIR\<close> is to hold the redirect path, for
  \<^verbatim>\<open>/tmp\<close> and \<^verbatim>\<open>.ultra\<close> the value \<^verbatim>\<open>/tmp/.ultra/\<close>. The callback
  below copies what it reads from \<^verbatim>\<open>TMPDIR\<close> into \<^verbatim>\<open>SEEN\<close>: it reads
  \<^verbatim>\<open>/tmp/.ultr\<close>, the text cut by the short buffer.
\<close>

theorem callback_sees_truncated_path:
  "ultra_sampler_boot all_succeed recording_callback (tmpdir_only ''/tmp'')
     = Inr \<lparr>how = Returns,
            trace = [Mkdir ''/tmp/.ultr'' 448 None, Setenv ''TMPDIR'' ''/tmp/.ultr'' True, Invoke,
                     Setenv ''TMPDIR'' ''/tmp'' True],
            final = \<lparr>environ = [''SEEN'' \<mapsto> ''/tmp/.ultr'', ''TMPDIR'' \<mapsto> ''/tmp''],
                      dirs = [''/tmp/.ultr'' \<mapsto> 448]\<rparr>\<rparr>"
  by (simp add: ultra_sampler_boot_def hook_eval_defs all_succeed_def recording_callback_def
      tmpdir_only_def)

section \<open>Early returns\<close>

text \<open>
  C3: when \<^verbatim>\<open>TMPDIR\<close> is unset at entry the routine returns at once: the state is
  the one it was called in (the variable still unset, no directory created) and the routine
  did nothing to the outside, in particular it did not call the callback.
\<close>

theorem unset_tmpdir_is_noop:
  assumes "environ s ''TMPDIR'' = None"
  shows "set_temporary_tmpdir_hook oc sub_dir_name func s
           = Inr \<lparr>how = Returns, trace = [], final = s\<rparr>
       \<and> set_temporary_tmpdir_indirect oc sub_dir_name func s
           = Inr \<lparr>how = Returns, trace = [], final = s\<rparr>"
  using assms
  by (simp add: set_temporary_tmpdir_hook_def set_temporary_tmpdir_indirect_def getenv_def)

theorem unset_tmpdir_is_noop_witness:
  "environ no_tmpdir ''TMPDIR'' = None
   \<and> set_temporary_tmpdir_hook all_succeed ''.ultra'' returning_callback no_tmpdir
        = Inr \<lparr>how = Returns, trace = [], final = no_tmpdir\<rparr>
   \<and> set_temporary_tmpdir_indirect all_succeed ''.ultra'' returning_callback no_tmpdir
        = Inr \<lparr>how = Returns, trace = [], final = no_tmpdir\<rparr>"
proof -
  have h: "environ no_tmpdir ''TMPDIR'' = None" by (simp add: no_tmpdir_def)
  show ?thesis
    using h unset_tmpdir_is_noop [OF h, of all_succeed "''.ultra''" returning_callback] by simp
qed

text \<open>
  C4: a call in which \<^verbatim>\<open>mkdir\<close> fails with an error other than \<^verbatim>\<open>EEXIST\<close>
  returns with the state it was called in, so \<^verbatim>\<open>TMPDIR\<close> is unchanged, and without
  having called the callback.
\<close>

theorem mkdir_failure_aborts:
  assumes "set_temporary_tmpdir_hook oc sub_dir_name func s = Inr r"
      and "Mkdir p m (Some e) \<in> set (trace r)" and "e \<noteq> EEXIST"
  shows "final r = s \<and> how r = Returns \<and> Invoke \<notin> set (trace r)"
  using assms unfolding set_temporary_tmpdir_hook_def
  by (auto simp: Let_def mkdir_def setenv_def
      split: option.splits if_splits prod.splits exit.splits)

theorem mkdir_failure_aborts_witness:
  "set_temporary_tmpdir_hook mkdir_denied ''.ultra'' returning_callback (tmpdir_only ''/tmp/'')
     = Inr denied_run
   \<and> Mkdir ''/tmp/.ultra/'' 448 (Some EACCES) \<in> set (trace denied_run) \<and> EACCES \<noteq> EEXIST
   \<and> final denied_run = tmpdir_only ''/tmp/'' \<and> how denied_run = Returns
   \<and> Invoke \<notin> set (trace denied_run)"
proof -
  have h: "Mkdir ''/tmp/.ultra/'' 448 (Some EACCES) \<in> set (trace denied_run)"
    by (simp add: denied_run_def)
  have d: "EACCES \<noteq> EEXIST" by simp
  show ?thesis
    using run_denied h d mkdir_failure_aborts [OF run_denied h d] by simp
qed

section \<open>Restoring the variable\<close>

text \<open>
  C5, as stated, lists as the conditions of a successful call that \<^verbatim>\<open>TMPDIR\<close> is set,
  that the directory is created or is there, that the variable assignment succeeds and that
  the callback returns. The routine assigns the variable twice, and the status of the second
  assignment, the restoring one, is not looked at. In the process below all the conditions
  hold and the restoring \<^verbatim>\<open>setenv\<close> fails: the call returns with
  \<^verbatim>\<open>TMPDIR=/tmp/.ultra/\<close> where it was \<^verbatim>\<open>/tmp/\<close> at entry.
\<close>

theorem restore_failure_leaves_redirect:
  "set_temporary_tmpdir_hook restore_fails ''.ultra'' returning_callback
       \<lparr>environ = [''TMPDIR'' \<mapsto> ''/tmp/''], dirs = Map.empty\<rparr>
     = Inr \<lparr>how = Returns,
            trace = [Mkdir ''/tmp/.ultra/'' 448 None, Setenv ''TMPDIR'' ''/tmp/.ultra/'' True,
                     Invoke, Setenv ''TMPDIR'' ''/tmp/'' False],
            final = \<lparr>environ = [''TMPDIR'' \<mapsto> ''/tmp/.ultra/''],
                      dirs = [''/tmp/.ultra/'' \<mapsto> 448]\<rparr>\<rparr>"
  by (simp add: hook_eval_defs restore_fails_def all_succeed_def returning_callback_def)

text \<open>
  C5, amended: when \<^verbatim>\<open>TMPDIR\<close> is set at entry to a value that is not empty, the
  allocation succeeds, the directory is created or is there, both assignments of the
  variable succeed, the redirecting and the restoring one, and the callback returns, then
  the call returns, it has run the callback, its last step is the restoring
  \<^verbatim>\<open>setenv\<close>, and the value of \<^verbatim>\<open>TMPDIR\<close> after the call is the value it had
  at entry.
\<close>

theorem successful_call_restores:
  assumes env: "environ s ''TMPDIR'' = Some orig" and ne: "orig \<noteq> []"
      and len: "length orig + length sub_dir_name + 2 < 2 ^ 64"
      and al: "malloc_ok oc"
      and mkok: "mkdir_fault oc = None \<or> mkdir_fault oc = Some EEXIST"
      and st: "setenv_redirect_ok oc"
      and rets: "\<forall>t. fst (func t) = Returns"
      and rs: "setenv_restore_ok oc"
  shows "\<exists>r. set_temporary_tmpdir_hook oc sub_dir_name func s = Inr r
           \<and> how r = Returns \<and> Invoke \<in> set (trace r)
           \<and> last (trace r) = Setenv ''TMPDIR'' orig True
           \<and> environ (final r) ''TMPDIR'' = Some orig"
proof -
  from successful_call_is_reached [OF env ne len al mkok st rets]
  obtain r where run: "set_temporary_tmpdir_hook oc sub_dir_name func s = Inr r"
    and inv: "Invoke \<in> set (trace r)" and ret: "how r = Returns"
    by blast
  have val: "environ (final r) ''TMPDIR'' = Some orig"
    using returned_call_restores [OF run inv ret rs] env by simp
  have "last (trace r) = Setenv ''TMPDIR'' orig True"
  proof (rule hook_invoked_cases [OF run inv])
    fix orig' c p err s1 e s3
    assume env': "environ s ''TMPDIR'' = Some orig'"
      and e: "how r = e"
      and n: "e = Returns \<Longrightarrow>
                trace r = [Mkdir p 448 err, Setenv ''TMPDIR'' p True, Invoke,
                           Setenv ''TMPDIR'' orig' (setenv_restore_ok oc)]
                \<and> final r = snd (setenv (setenv_restore_ok oc) ''TMPDIR'' orig' s3)"
    from e ret have "e = Returns" by simp
    from n [OF this] env env' rs show ?thesis by simp
  qed
  with run ret inv val show ?thesis by blast
qed

theorem successful_call_restores_witness:
  "environ (tmpdir_only ''/tmp/'') ''TMPDIR'' = Some ''/tmp/'' \<and> ''/tmp/'' \<noteq> []
   \<and> length ''/tmp/'' + length ''.ultra'' + 2 < (2::nat) ^ 64
   \<and> malloc_ok all_succeed
   \<and> (mkdir_fault all_succeed = None \<or> mkdir_fault all_succeed = Some EEXIST)
   \<and> setenv_redirect_ok all_succeed
   \<and> (\<forall>t. fst (returning_callback t) = Returns)
   \<and> setenv_restore_ok all_succeed
   \<and> (\<exists>r. set_temporary_tmpdir_hook all_succeed ''.ultra'' returning_callback
               (tmpdir_only ''/tmp/'') = Inr r
           \<and> how r = Returns \<and> Invoke \<in> set (trace r)
           \<and> last (trace r) = Setenv ''TMPDIR'' ''/tmp/'' True
           \<and> environ (final r) ''TMPDIR'' = Some ''/tmp/'')"
proof -
  have e: "environ (tmpdir_only ''/tmp/'') ''TMPDIR'' = Some ''/tmp/''"
    by (simp add: tmpdir_only_def)
  have n: "''/tmp/'' \<noteq> []" by simp
  have l: "length ''/tmp/'' + length ''.ultra'' + 2 < (2::nat) ^ 64" by simp
  have a: "malloc_ok all_succeed"
    and m: "mkdir_fault all_succeed = None \<or> mkdir_fault all_succeed = Some EEXIST"
    and d: "setenv_redirect_ok all_succeed" and k: "setenv_restore_ok all_succeed"
    by (simp_all add: all_succeed_def)
  have c: "\<forall>t. fst (returning_callback t) = Returns"
    by (simp add: returning_callback_def)
  show ?thesis
    using e n l a m d c k successful_call_restores [OF e n l a m d c k] by simp
qed

text \<open>
  C6, as stated, asks for the restoration also when the callback terminates abnormally.
  The restoring \<^verbatim>\<open>setenv\<close> is the statement after \<^verbatim>\<open>func()\<close> and nothing
  guards the call: a callback that leaves by a non-local exit skips it. Starting from
  \<^verbatim>\<open>TMPDIR=/tmp/\<close>, the code that runs next sees \<^verbatim>\<open>TMPDIR=/tmp/.ultra/\<close>.
\<close>

theorem unwinding_callback_leaves_redirect:
  "set_temporary_tmpdir_hook all_succeed ''.ultra'' unwinding_callback
       \<lparr>environ = [''TMPDIR'' \<mapsto> ''/tmp/''], dirs = Map.empty\<rparr>
     = Inr \<lparr>how = Unwinds,
            trace = [Mkdir ''/tmp/.ultra/'' 448 None, Setenv ''TMPDIR'' ''/tmp/.ultra/'' True,
                     Invoke],
            final = \<lparr>environ = [''TMPDIR'' \<mapsto> ''/tmp/.ultra/''],
                      dirs = [''/tmp/.ultra/'' \<mapsto> 448]\<rparr>\<rparr>"
  by (simp add: hook_eval_defs all_succeed_def unwinding_callback_def)

text \<open>
  C6, amended: in every call that reaches the callback, the callback is started with
  \<^verbatim>\<open>TMPDIR\<close> set to the redirect path \<open>p\<close>. If it returns, the last thing the
  routine does before it returns is \<^verbatim>\<open>setenv\<close> of \<^verbatim>\<open>TMPDIR\<close> to the value read
  at entry, on the state the callback left. If it leaves by a non-local exit, the call of the
  callback is the last thing the routine does, and the state is the one the callback left.
\<close>

theorem restore_follows_normal_return:
  assumes "set_temporary_tmpdir_hook oc sub_dir_name func s = Inr r"
      and "Invoke \<in> set (trace r)"
  shows "\<exists>orig p t t'. environ s ''TMPDIR'' = Some orig
           \<and> Setenv ''TMPDIR'' p True \<in> set (trace r) \<and> environ t ''TMPDIR'' = Some p
           \<and> func t = (how r, t')
           \<and> (case how r of
                 Returns \<Rightarrow> last (trace r) = Setenv ''TMPDIR'' orig (setenv_restore_ok oc)
                            \<and> final r = snd (setenv (setenv_restore_ok oc) ''TMPDIR'' orig t')
               | Unwinds \<Rightarrow> last (trace r) = Invoke \<and> final r = t')"
proof (rule hook_invoked_cases [OF assms])
  fix orig c p err s1 e s3
  assume env: "environ s ''TMPDIR'' = Some orig"
    and cb: "func (s1\<lparr>environ := (environ s1)(''TMPDIR'' \<mapsto> p)\<rparr>) = (e, s3)"
    and e: "how r = e"
    and u: "e = Unwinds \<Longrightarrow>
              trace r = [Mkdir p 448 err, Setenv ''TMPDIR'' p True, Invoke] \<and> final r = s3"
    and n: "e = Returns \<Longrightarrow>
              trace r = [Mkdir p 448 err, Setenv ''TMPDIR'' p True, Invoke,
                         Setenv ''TMPDIR'' orig (setenv_restore_ok oc)]
              \<and> final r = snd (setenv (setenv_restore_ok oc) ''TMPDIR'' orig s3)"
  let ?t = "s1\<lparr>environ := (environ s1)(''TMPDIR'' \<mapsto> p)\<rparr>"
  have "environ ?t ''TMPDIR'' = Some p" by simp
  moreover have "func ?t = (how r, s3)" using cb e by simp
  moreover have "Setenv ''TMPDIR'' p True \<in> set (trace r)"
    using u n by (cases e) simp_all
  moreover have "case how r of
                 Returns \<Rightarrow> last (trace r) = Setenv ''TMPDIR'' orig (setenv_restore_ok oc)
                            \<and> final r = snd (setenv (setenv_restore_ok oc) ''TMPDIR'' orig s3)
               | Unwinds \<Rightarrow> last (trace r) = Invoke \<and> final r = s3"
    using e u n by (cases e) simp_all
  ultimately show ?thesis using env by blast
qed

theorem restore_follows_normal_return_witness:
  "set_temporary_tmpdir_hook all_succeed ''.ultra'' returning_callback (tmpdir_only ''/tmp/'')
     = Inr first_run
   \<and> Invoke \<in> set (trace first_run)
   \<and> (\<exists>orig p t t'. environ (tmpdir_only ''/tmp/'') ''TMPDIR'' = Some orig
         \<and> Setenv ''TMPDIR'' p True \<in> set (trace first_run) \<and> environ t ''TMPDIR'' = Some p
         \<and> returning_callback t = (how first_run, t')
         \<and> (case how first_run of
               Returns \<Rightarrow>
                 last (trace first_run)
                   = Setenv ''TMPDIR'' orig (setenv_restore_ok all_succeed)
                 \<and> final first_run
                   = snd (setenv (setenv_restore_ok all_succeed) ''TMPDIR'' orig t')
             | Unwinds \<Rightarrow> last (trace first_run) = Invoke \<and> final first_run = t'))"
proof -
  have i: "Invoke \<in> set (trace first_run)" by (simp add: first_run_def)
  show ?thesis
    using run_first i restore_follows_normal_return [OF run_first i] by simp
qed


section \<open>Calling twice\<close>



section \<open>The two files\<close>

text \<open>
  C8: the routines of the two files agree. On every state, with every name, callback and
  outcome of the library calls, they fault alike or return alike, in the same final state
  and with the same trace of \<^verbatim>\<open>mkdir\<close>, \<^verbatim>\<open>setenv\<close> and callback steps, once the
  \<^verbatim>\<open>printf\<close> line of \<^verbatim>\<open>ultra_sampler_indirect.cpp\<close> is left out.
\<close>

theorem hook_indirect_equivalent:
  "set_temporary_tmpdir_hook oc sub_dir_name func s
     = map_sum id without_printf (set_temporary_tmpdir_indirect oc sub_dir_name func s)"
proof (cases "environ s ''TMPDIR''")
  case None
  then show ?thesis
    by (simp add: set_temporary_tmpdir_hook_def set_temporary_tmpdir_indirect_def getenv_def
        without_printf_def)
next
  case (Some orig)
  note env = this
  show ?thesis
  proof (cases "char_at orig (strlen orig - 1)")
    case None
    with env show ?thesis
      by (simp add: set_temporary_tmpdir_hook_def set_temporary_tmpdir_indirect_def getenv_def)
  next
    case (Some c)
    note rd = this
    define n where "n = strlen orig + strlen sub_dir_name + 1 + (if c = CHR ''/'' then 1 else 0)"
    define fmt where "fmt = (if c = CHR ''/'' then ''%s%s/'' else ''%s/%s/'')"
    show ?thesis
    proof (cases "malloc_ok oc")
      case False
      with env rd show ?thesis
        by (simp add: set_temporary_tmpdir_hook_def set_temporary_tmpdir_indirect_def getenv_def
            Let_def without_printf_def)
    next
      case True
      note al = this
      show ?thesis
      proof (cases "snprintf n fmt [Arg_Str orig, Arg_Str sub_dir_name]")
        case None
        with env rd al show ?thesis
          unfolding n_def fmt_def
          by (simp add: set_temporary_tmpdir_hook_def set_temporary_tmpdir_indirect_def getenv_def
              Let_def)
      next
        case (Some p)
        note path = this [unfolded n_def fmt_def]
        obtain err s1 where mk: "mkdir (mkdir_fault oc) p 448 s = (err, s1)"
          by (cases "mkdir (mkdir_fault oc) p 448 s") blast
        obtain e s3 where cb: "func (s1\<lparr>environ := (environ s1)(''TMPDIR'' \<mapsto> p)\<rparr>) = (e, s3)"
          by (cases "func (s1\<lparr>environ := (environ s1)(''TMPDIR'' \<mapsto> p)\<rparr>)") blast
        from env rd al path mk cb show ?thesis
          by (cases e)
             (simp_all add: set_temporary_tmpdir_hook_def set_temporary_tmpdir_indirect_def
               getenv_def setenv_def Let_def without_printf_def del: sformat.simps)
      qed
    qed
  qed
qed

section \<open>The empty value and the failed allocation\<close>

text \<open>
  C9: the read \<^verbatim>\<open>original_tmpdir[original_tmpdir_len - 1]\<close> is to be in bounds when
  \<^verbatim>\<open>TMPDIR\<close> is set to the empty string. There \<^verbatim>\<open>strlen\<close> is 0, the index is
  \<^verbatim>\<open>(size_t)0 - 1\<close>, the largest \<^verbatim>\<open>size_t\<close>, and the object is the one
  terminator byte: both routines read outside it, whatever the name, the callback and the
  library do (\<open>empty_value_faults\<close>). For every non-empty value the read is inside
  the string (\<open>char_at_nonempty\<close>).
\<close>

theorem empty_tmpdir_reads_out_of_bounds:
  "set_temporary_tmpdir_hook all_succeed ''.ultra'' returning_callback (tmpdir_only [])
     = Inl Read_Out_Of_Bounds
   \<and> set_temporary_tmpdir_indirect all_succeed ''.ultra'' returning_callback (tmpdir_only [])
     = Inl Read_Out_Of_Bounds"
  by (simp add: set_temporary_tmpdir_hook_def set_temporary_tmpdir_indirect_def getenv_def
      tmpdir_only_def char_at_empty)

text \<open>
  C10: when \<^verbatim>\<open>malloc\<close> fails (it is reached when \<^verbatim>\<open>TMPDIR\<close> is set to a
  non-empty value), both routines return the state they were called in, with nothing done:
  \<^verbatim>\<open>TMPDIR\<close> unmodified, no directory created, the callback not called.
\<close>

theorem malloc_failure_is_noop:
  assumes "\<not> malloc_ok oc" and "environ s ''TMPDIR'' = Some orig" and "orig \<noteq> []"
  shows "set_temporary_tmpdir_hook oc sub_dir_name func s
           = Inr \<lparr>how = Returns, trace = [], final = s\<rparr>
       \<and> set_temporary_tmpdir_indirect oc sub_dir_name func s
           = Inr \<lparr>how = Returns, trace = [], final = s\<rparr>"
proof -
  obtain c where "char_at orig (strlen orig - 1) = Some c"
    using char_at_nonempty [OF assms(3)] by blast
  with assms(1,2) show ?thesis
    by (simp add: set_temporary_tmpdir_hook_def set_temporary_tmpdir_indirect_def getenv_def
        Let_def)
qed

theorem malloc_failure_is_noop_witness:
  "\<not> malloc_ok malloc_fails \<and> environ (tmpdir_only ''/tmp/'') ''TMPDIR'' = Some ''/tmp/''
   \<and> ''/tmp/'' \<noteq> []
   \<and> set_temporary_tmpdir_hook malloc_fails ''.ultra'' returning_callback (tmpdir_only ''/tmp/'')
        = Inr \<lparr>how = Returns, trace = [], final = tmpdir_only ''/tmp/''\<rparr>
   \<and> set_temporary_tmpdir_indirect malloc_fails ''.ultra'' returning_callback
          (tmpdir_only ''/tmp/'')
        = Inr \<lparr>how = Returns, trace = [], final = tmpdir_only ''/tmp/''\<rparr>"
proof -
  have m: "\<not> malloc_ok malloc_fails" by (simp add: malloc_fails_def all_succeed_def)
  have e: "environ (tmpdir_only ''/tmp/'') ''TMPDIR'' = Some ''/tmp/''"
    by (simp add: tmpdir_only_def)
  have n: "''/tmp/'' \<noteq> []" by simp
  show ?thesis
    using m e n malloc_failure_is_noop [OF m e n, of "''.ultra''" returning_callback] by simp
qed

end
